theory Spec2Isabelle
  imports Complex_Main "HOL-Library.Word" "HOL-Library.AList"
begin

section \<open>Shared conventions\<close>

text \<open>
  The Python sources \<^verbatim>\<open>src/clipsai/resize/resizer.py\<close> and
  \<^verbatim>\<open>src/clipsai/resize/segment.py\<close> are embedded as HOL functions.
  Python's unbounded integers are \<^typ>\<open>int\<close> (\<open>//\<close> is \<open>div\<close>: both round towards
  minus infinity). Python's floats (times in seconds, ratios) are idealised as exact
  rationals, \<^typ>\<open>rat\<close>: a true division \<open>a / b\<close> of two integers is the exact quotient,
  which agrees with the rounded float in the comparisons of ratios of integers that the
  code makes as long as the operands stay far below \<open>2^53\<close> (pixel counts do). An integer
  that the code reads off a float expression can depend on the rounding: where it decides
  what is sampled (\<open>frames_left\<close> in the layout), the float result is a parameter of the
  model; where it is only handed on to a parameter (the detection height in the batch
  count), the exact value stands for it. Every \<^verbatim>\<open>raise\<close> of the
  source, and every exception a Python primitive throws on the modelled path, is a value
  \<open>Inl e\<close> of the result type \<open>error + 'a\<close>.
\<close>

datatype error =
    ZeroDivisionError
  | IndexError
  | KeyError string
  | ValueError
  | ResizerError string

text \<open>Sequencing of fallible steps: the first exception ends the computation.\<close>

definition ebind :: "error + 'a \<Rightarrow> ('a \<Rightarrow> error + 'b) \<Rightarrow> error + 'b" where
  "ebind m f = (case m of Inl e \<Rightarrow> Inl e | Inr v \<Rightarrow> f v)"

text \<open>Python's \<^verbatim>\<open>int(x)\<close> on a float truncates towards zero.\<close>

definition py_int :: "rat \<Rightarrow> int" where
  "py_int q = (if 0 \<le> q then \<lfloor>q\<rfloor> else \<lceil>q\<rceil>)"

text \<open>True division \<^verbatim>\<open>a / b\<close> of two Python integers.\<close>

definition py_truediv :: "int \<Rightarrow> int \<Rightarrow> error + rat" where
  "py_truediv a b = (if b = 0 then Inl ZeroDivisionError else Inr (of_int a / of_int b))"

text \<open>Floor division \<^verbatim>\<open>a // b\<close> of two Python integers.\<close>

definition py_floordiv :: "int \<Rightarrow> int \<Rightarrow> error + int" where
  "py_floordiv a b = (if b = 0 then Inl ZeroDivisionError else Inr (a div b))"

section \<open>Resize dimensions (\<^verbatim>\<open>Resizer._calc_resize_width_and_height_pixels\<close>)\<close>

text \<open>
  \<^verbatim>\<open>
  resize_ar_width, resize_ar_height = resize_aspect_ratio
  desired_aspect_ratio = resize_ar_width / resize_ar_height
  original_aspect_ratio = original_width_pixels / original_height_pixels
  if original_aspect_ratio > desired_aspect_ratio:
      resize_height_pixels = original_height_pixels
      resize_width_pixels = int(resize_height_pixels * resize_ar_width / resize_ar_height)
  else:
      resize_width_pixels = original_width_pixels
      resize_height_pixels = int(resize_width_pixels * resize_ar_height / resize_ar_width)
  return resize_width_pixels, resize_height_pixels
  \<close>
\<close>

definition calc_resize_width_and_height_pixels ::
    "int \<Rightarrow> int \<Rightarrow> int \<times> int \<Rightarrow> error + int \<times> int" where
  "calc_resize_width_and_height_pixels original_width_pixels original_height_pixels
       resize_aspect_ratio =
     (case resize_aspect_ratio of (resize_ar_width, resize_ar_height) \<Rightarrow>
        ebind (py_truediv resize_ar_width resize_ar_height) (\<lambda>desired_aspect_ratio.
        ebind (py_truediv original_width_pixels original_height_pixels)
          (\<lambda>original_aspect_ratio.
        if original_aspect_ratio > desired_aspect_ratio
        then ebind (py_truediv (original_height_pixels * resize_ar_width) resize_ar_height)
               (\<lambda>q. Inr (py_int q, original_height_pixels))
        else ebind (py_truediv (original_width_pixels * resize_ar_height) resize_ar_width)
               (\<lambda>q. Inr (original_width_pixels, py_int q)))))"

section \<open>Rectangles and the ROI merge\<close>

text \<open>
  Modelled from the spec: the class \<^verbatim>\<open>Rect\<close> (\<^verbatim>\<open>rect.py\<close> is not among the sources);
  the specification gives it as \<open>{x, y, width, height}\<close> in source pixel coordinates.
  The fields are Python integers. (The rectangles that \<^verbatim>\<open>_calc_segment_rois\<close> builds from
  the boxes of the face detector hold 16-bit integers instead; they are the type \<open>Rect16\<close>
  of the layout section, with the 16-bit versions of the functions of this section.)
\<close>

record Rect =
  x :: int
  y :: int
  width :: int
  height :: int

text \<open>
  \<^verbatim>\<open>
  def iou(rect1, rect2):
      x1 = max(rect1.x, rect2.x)
      y1 = max(rect1.y, rect2.y)
      x2 = min(rect1.x + rect1.width, rect2.x + rect2.width)
      y2 = min(rect1.y + rect1.height, rect2.y + rect2.height)
      intersection = max(0, x2 - x1) * max(0, y2 - y1)
      union = rect1.width * rect1.height + rect2.width * rect2.height - intersection
      return intersection / union if union > 0 else 0
  \<close>
\<close>

definition iou :: "Rect \<Rightarrow> Rect \<Rightarrow> rat" where
  "iou rect1 rect2 =
     (let x1 = max (x rect1) (x rect2);
          y1 = max (y rect1) (y rect2);
          x2 = min (x rect1 + width rect1) (x rect2 + width rect2);
          y2 = min (y rect1 + height rect1) (y rect2 + height rect2);
          intersection = max 0 (x2 - x1) * max 0 (y2 - y1);
          union = width rect1 * height rect1 + width rect2 * height rect2 - intersection
      in if union > 0 then of_int intersection / of_int union else 0)"

text \<open>
  \<^verbatim>\<open>
  def union_rois(rect1, rect2):
      x = min(rect1.x, rect2.x)
      y = min(rect1.y, rect2.y)
      width = max(rect1.x + rect1.width, rect2.x + rect2.width) - x
      height = max(rect1.y + rect1.height, rect2.y + rect2.height) - y
      return Rect(x, y, width, height)
  \<close>
\<close>

definition union_rois :: "Rect \<Rightarrow> Rect \<Rightarrow> Rect" where
  "union_rois rect1 rect2 =
     (let x' = min (x rect1) (x rect2);
          y' = min (y rect1) (y rect2);
          width' = max (x rect1 + width rect1) (x rect2 + width rect2) - x';
          height' = max (y rect1 + height rect1) (y rect2 + height rect2) - y'
      in \<lparr>x = x', y = y', width = width', height = height'\<rparr>)"

text \<open>\<^verbatim>\<open>rois.pop(i)\<close> leaves the list without its \<open>i\<close>-th element.\<close>

definition pop_at :: "nat \<Rightarrow> 'a list \<Rightarrow> 'a list" where
  "pop_at i xs = take i xs @ drop (Suc i) xs"

text \<open>
  The inner loop of \<^verbatim>\<open>merge_rois\<close>, on the popped rectangle \<open>roi\<close>, the index \<open>i\<close> and
  the remaining list \<open>rois\<close>; it returns the accumulated rectangle and what is left of
  the list:
  \<^verbatim>\<open>
  i = 0
  while i < len(rois):
      if self.iou(roi, rois[i]) > overlap_threshold:
          roi = self.union_rois(roi, rois.pop(i))
      else:
          i += 1
  \<close>
\<close>

function merge_rois_scan :: "rat \<Rightarrow> nat \<Rightarrow> Rect \<Rightarrow> Rect list \<Rightarrow> Rect \<times> Rect list" where
  "merge_rois_scan overlap_threshold i roi rois =
     (if i < length rois
      then (if iou roi (rois ! i) > overlap_threshold
            then merge_rois_scan overlap_threshold i (union_rois roi (rois ! i)) (pop_at i rois)
            else merge_rois_scan overlap_threshold (Suc i) roi rois)
      else (roi, rois))"
  by pat_completeness auto
termination
  by (relation "measure (\<lambda>(t, i, roi, rois). length rois - i)") (auto simp: pop_at_def)

declare merge_rois_scan.simps [simp del]

lemma merge_rois_scan_length:
  "length (snd (merge_rois_scan t i roi rois)) \<le> length rois"
proof (induction t i roi rois rule: merge_rois_scan.induct)
  case (1 t i roi rois)
  show ?case
  proof (cases "i < length rois")
    case False
    then show ?thesis by (subst merge_rois_scan.simps) simp
  next
    case True
    note in_range = this
    show ?thesis
    proof (cases "iou roi (rois ! i) > t")
      case True
      have "length (pop_at i rois) \<le> length rois"
        by (simp add: pop_at_def)
      with "1.IH"(1) [OF in_range True] in_range True show ?thesis
        by (subst merge_rois_scan.simps) simp
    next
      case False
      with "1.IH"(2) [OF in_range False] in_range show ?thesis
        by (subst merge_rois_scan.simps) simp
    qed
  qed
qed

text \<open>
  The outer loop, with the output list \<open>merged\<close> as accumulator:
  \<^verbatim>\<open>
  merged = []
  while rois:
      roi = rois.pop(0)
      ... inner loop ...
      merged.append(roi)
  return merged
  \<close>
\<close>

function merge_rois_loop :: "rat \<Rightarrow> Rect list \<Rightarrow> Rect list \<Rightarrow> Rect list" where
  "merge_rois_loop overlap_threshold merged [] = merged"
| "merge_rois_loop overlap_threshold merged (roi # rois) =
     (let r = merge_rois_scan overlap_threshold 0 roi rois
      in merge_rois_loop overlap_threshold (merged @ [fst r]) (snd r))"
  by pat_completeness auto
termination
  by (relation "measure (\<lambda>(t, merged, rois). length rois)")
    (auto simp: le_imp_less_Suc merge_rois_scan_length)

text \<open>\<^verbatim>\<open>merge_rois(rois, overlap_threshold=0.5)\<close>.\<close>

definition merge_rois_thr :: "Rect list \<Rightarrow> rat \<Rightarrow> Rect list" where
  "merge_rois_thr rois overlap_threshold = merge_rois_loop overlap_threshold [] rois"

definition merge_rois :: "Rect list \<Rightarrow> Rect list" where
  "merge_rois rois = merge_rois_thr rois (1 / 2)"


text \<open>
  Every rectangle of a list has IoU at most \<open>t\<close> with every later one: no two
  rectangles of the list would be merged. (\<open>iou\<close> is symmetric, so this covers every
  pair of distinct positions.)
\<close>

fun iou_separated :: "rat \<Rightarrow> Rect list \<Rightarrow> bool" where
  "iou_separated t [] = True"
| "iou_separated t (r # rs) = ((\<forall>s \<in> set rs. iou r s \<le> t) \<and> iou_separated t rs)"

lemma iou_commute: "iou r s = iou s r"
  by (simp add: iou_def Let_def max.commute min.commute add.commute)

lemma merge_rois_scan_separated:
  "\<forall>s \<in> set (drop i rois). iou roi s \<le> t \<Longrightarrow> merge_rois_scan t i roi rois = (roi, rois)"
proof (induction t i roi rois rule: merge_rois_scan.induct)
  case (1 t i roi rois)
  show ?case
  proof (cases "i < length rois")
    case False
    then show ?thesis by (subst merge_rois_scan.simps) simp
  next
    case True
    then have split: "drop i rois = rois ! i # drop (Suc i) rois"
      by (simp add: Cons_nth_drop_Suc)
    with "1.prems" have le: "\<not> iou roi (rois ! i) > t"
      by (simp add: not_less)
    from split "1.prems" have "\<forall>s \<in> set (drop (Suc i) rois). iou roi s \<le> t"
      by simp
    from "1.IH"(2) [OF True le this] True le show ?thesis
      by (subst merge_rois_scan.simps) simp
  qed
qed

lemma merge_rois_loop_separated:
  "iou_separated t rois \<Longrightarrow> merge_rois_loop t merged rois = merged @ rois"
proof (induction rois arbitrary: merged)
  case Nil
  then show ?case by simp
next
  case (Cons r rs)
  then have "merge_rois_scan t 0 r rs = (r, rs)"
    by (simp add: merge_rois_scan_separated)
  with Cons show ?case by simp
qed

lemma merge_rois_loop_length:
  "length (merge_rois_loop t merged rois) \<le> length merged + length rois"
proof (induction t merged rois rule: merge_rois_loop.induct)
  case (1 t merged)
  then show ?case by simp
next
  case (2 t merged roi rois)
  have "length (snd (merge_rois_scan t 0 roi rois)) \<le> length rois"
    by (rule merge_rois_scan_length)
  with 2 show ?case by (simp add: Let_def)
qed

lemma short_list_cases:
  assumes "length xs \<le> 2"
  obtains "xs = []" | a where "xs = [a]" | a b where "xs = [a, b]"
proof (cases xs)
  case Nil
  then show ?thesis using that by simp
next
  case (Cons a ys)
  note outer = this
  show ?thesis
  proof (cases ys)
    case Nil
    with outer show ?thesis using that by simp
  next
    case (Cons b zs)
    with outer assms have "zs = []" by simp
    with outer Cons show ?thesis using that by simp
  qed
qed

lemma merge_rois_loop_short_separated:
  assumes "length rois \<le> 2"
  shows "iou_separated t (merge_rois_loop t [] rois)"
  using assms
proof (cases rois rule: short_list_cases)
  case 1
  then show ?thesis by simp
next
  case (2 a)
  then show ?thesis by (simp add: merge_rois_scan.simps)
next
  case (3 a b)
  then show ?thesis by (simp add: merge_rois_scan.simps pop_at_def Let_def not_less)
qed

section \<open>Segments, crops and the layout calculation\<close>

text \<open>
  The pipeline passes each segment along as a Python dictionary that gains keys from stage
  to stage. The keys every stage has are the fields of \<open>speaker_segment\<close>; the keys of the
  face search and of the layout are record extensions. A key that a stage may leave out
  is an optional field (\<open>None\<close>: the key is absent, and reading it raises \<^verbatim>\<open>KeyError\<close>).
  The time type is a parameter: the timeline merge only compares and subtracts times.
\<close>

record 't speaker_segment =
  speakers :: "int list"
  start_time :: 't
  end_time :: 't

record face_segment = "rat speaker_segment" +
  first_face_sec :: rat
  found_face :: bool
  is_analyzed :: bool
  num_samples :: int

text \<open>
  A sub-crop of a split-screen layout is a dictionary from key names to integers, kept
  in insertion order.
\<close>

type_synonym crop_dict = "(string \<times> int) list"

record crop_segment = "rat speaker_segment" +
  crop_type :: string
  crop_x :: "int option"
  crop_y :: "int option"
  crops :: "crop_dict list option"

text \<open>\<^verbatim>\<open>d[k]\<close> on a dictionary.\<close>

definition dict_get :: "crop_dict \<Rightarrow> string \<Rightarrow> error + int" where
  "dict_get d k = (case map_of d k of None \<Rightarrow> Inl (KeyError k) | Some v \<Rightarrow> Inr v)"

text \<open>What the pipeline reads from the \<^verbatim>\<open>VideoFile\<close>.\<close>

record VideoFile =
  width_pixels :: int
  height_pixels :: int
  frame_rate :: rat

text \<open>
  \<^verbatim>\<open>
  def _calc_crop(self, roi, resize_width, resize_height):
      roi_x_center = roi.x + roi.width // 2
      roi_y_center = roi.y + roi.height // 2
      crop = Rect(x=max(roi_x_center - (resize_width // 2), 0),
                  y=max(roi_y_center - (resize_height // 2), 0),
                  width=resize_width, height=resize_height)
      return crop
  \<close>
\<close>

definition calc_crop :: "Rect \<Rightarrow> int \<Rightarrow> int \<Rightarrow> Rect" where
  "calc_crop roi resize_width resize_height =
     (let roi_x_center = x roi + width roi div 2;
          roi_y_center = y roi + height roi div 2
      in \<lparr>x = max (roi_x_center - (resize_width div 2)) 0,
          y = max (roi_y_center - (resize_height div 2)) 0,
          width = resize_width,
          height = resize_height\<rparr>)"

text \<open>
  \<^verbatim>\<open>math.ceil(math.sqrt(n))\<close> for a list length \<open>n\<close>: the least \<open>g\<close> with \<open>n \<le> g * g\<close>,
  found by counting up.
\<close>

function ceil_sqrt_from :: "nat \<Rightarrow> nat \<Rightarrow> nat" where
  "ceil_sqrt_from g n = (if n \<le> g * g then g else ceil_sqrt_from (Suc g) n)"
  by pat_completeness auto
termination
proof (relation "measure (\<lambda>(g, n). n - g)")
  show "wf (measure (\<lambda>(g, n). n - g))"
    by simp
next
  fix g n :: nat
  assume "\<not> n \<le> g * g"
  moreover have "g \<le> g * g"
    by (cases g) simp_all
  ultimately have "g < n"
    by linarith
  then show "((Suc g, n), g, n) \<in> measure (\<lambda>(g, n). n - g)"
    by simp
qed

declare ceil_sqrt_from.simps [simp del]

definition ceil_sqrt :: "nat \<Rightarrow> nat" where
  "ceil_sqrt n = ceil_sqrt_from 0 n"

text \<open>
  \<^verbatim>\<open>
  def _calc_split_screen_crops(self, rois, resize_width, resize_height):
      crops = []
      n_rois = len(rois)
      if n_rois == 2:
          for i, roi in enumerate(rois):
              crop = self._calc_crop(roi, resize_width, resize_height // 2)
              crops.append({"x": int(crop.x), "y": int(crop.y),
                            "width": resize_width, "height": resize_height // 2,
                            "target_y": i * (resize_height // 2)})
      elif n_rois > 2:
          grid_size = math.ceil(math.sqrt(n_rois))
          cell_width = resize_width // grid_size
          cell_height = resize_height // grid_size
          for i, roi in enumerate(rois):
              crop = self._calc_crop(roi, cell_width, cell_height)
              crops.append({"x": int(crop.x), "y": int(crop.y),
                            "width": cell_width, "height": cell_height,
                            "target_x": (i % grid_size) * cell_width,
                            "target_y": (i // grid_size) * cell_height})
      return crops
  \<close>
\<close>

definition calc_split_screen_crops :: "Rect list \<Rightarrow> int \<Rightarrow> int \<Rightarrow> crop_dict list" where
  "calc_split_screen_crops rois resize_width resize_height =
     (let n_rois = length rois in
      if n_rois = 2 then
        map (\<lambda>(i, roi).
               let crop = calc_crop roi resize_width (resize_height div 2)
               in [(''x'', x crop), (''y'', y crop),
                   (''width'', resize_width), (''height'', resize_height div 2),
                   (''target_y'', int i * (resize_height div 2))])
            (enumerate 0 rois)
      else if n_rois > 2 then
        (let grid_size = int (ceil_sqrt n_rois);
             cell_width = resize_width div grid_size;
             cell_height = resize_height div grid_size
         in map (\<lambda>(i, roi).
                   let crop = calc_crop roi cell_width cell_height
                   in [(''x'', x crop), (''y'', y crop),
                       (''width'', cell_width), (''height'', cell_height),
                       (''target_x'', (int i mod grid_size) * cell_width),
                       (''target_y'', (int i div grid_size) * cell_height)])
                (enumerate 0 rois))
      else [])"

text \<open>
  The detector's answer for one frame is \<^verbatim>\<open>None\<close> or an array of boxes
  \<open>[x1, y1, x2, y2]\<close> of \<^verbatim>\<open>np.int16\<close> values (\<^verbatim>\<open>_detect_faces\<close> casts them with
  \<^verbatim>\<open>astype(np.int16)\<close>). \<^verbatim>\<open>_calc_segment_rois\<close> hands these values to \<^verbatim>\<open>Rect\<close>, so the
  rectangles of detected faces hold \<^verbatim>\<open>np.int16\<close> fields (\<^verbatim>\<open>Rect\<close> is taken to store what it
  is given), and \<^verbatim>\<open>iou\<close> and \<^verbatim>\<open>union_rois\<close> compute on them in 16 bits: sums, differences
  and products of two \<^verbatim>\<open>np.int16\<close> values wrap, comparisons are signed. A face of
  200 x 200 pixels has the area \<open>40000 - 65536 = -25536\<close>. Such a rectangle is a
  \<open>Rect16\<close>.
\<close>

record Rect16 =
  x16 :: "16 word"
  y16 :: "16 word"
  width16 :: "16 word"
  height16 :: "16 word"

text \<open>
  Python's \<^verbatim>\<open>max(a, b)\<close> and \<^verbatim>\<open>min(a, b)\<close> on \<^verbatim>\<open>np.int16\<close> values (a signed comparison; the
  integer \<open>0\<close> of \<^verbatim>\<open>max(0, x2 - x1)\<close> is the word \<open>0\<close>).
\<close>

definition max16 :: "16 word \<Rightarrow> 16 word \<Rightarrow> 16 word" where
  "max16 a b = (if sint a < sint b then b else a)"

definition min16 :: "16 word \<Rightarrow> 16 word \<Rightarrow> 16 word" where
  "min16 a b = (if sint b < sint a then b else a)"

text \<open>
  \<^verbatim>\<open>iou\<close> on two rectangles of the detector. The quotient of two \<^verbatim>\<open>np.int16\<close> values is a
  float; it is only compared with the threshold 0.5, and for numerator and denominator
  below \<open>2 ^ 15\<close> in size that comparison is the one of the exact quotient.
\<close>

definition iou16 :: "Rect16 \<Rightarrow> Rect16 \<Rightarrow> rat" where
  "iou16 rect1 rect2 =
     (let x1 = max16 (x16 rect1) (x16 rect2);
          y1 = max16 (y16 rect1) (y16 rect2);
          x2 = min16 (x16 rect1 + width16 rect1) (x16 rect2 + width16 rect2);
          y2 = min16 (y16 rect1 + height16 rect1) (y16 rect2 + height16 rect2);
          intersection = max16 0 (x2 - x1) * max16 0 (y2 - y1);
          union = width16 rect1 * height16 rect1 + width16 rect2 * height16 rect2
                    - intersection
      in if sint union > 0 then of_int (sint intersection) / of_int (sint union) else 0)"

definition union_rois16 :: "Rect16 \<Rightarrow> Rect16 \<Rightarrow> Rect16" where
  "union_rois16 rect1 rect2 =
     (let x' = min16 (x16 rect1) (x16 rect2);
          y' = min16 (y16 rect1) (y16 rect2);
          width' = max16 (x16 rect1 + width16 rect1) (x16 rect2 + width16 rect2) - x';
          height' = max16 (y16 rect1 + height16 rect1) (y16 rect2 + height16 rect2) - y'
      in \<lparr>x16 = x', y16 = y', width16 = width', height16 = height'\<rparr>)"

text \<open>\<^verbatim>\<open>merge_rois\<close> on rectangles of the detector: the same two loops as above.\<close>

function merge_rois_scan16 ::
    "rat \<Rightarrow> nat \<Rightarrow> Rect16 \<Rightarrow> Rect16 list \<Rightarrow> Rect16 \<times> Rect16 list" where
  "merge_rois_scan16 overlap_threshold i roi rois =
     (if i < length rois
      then (if iou16 roi (rois ! i) > overlap_threshold
            then merge_rois_scan16 overlap_threshold i (union_rois16 roi (rois ! i))
                   (pop_at i rois)
            else merge_rois_scan16 overlap_threshold (Suc i) roi rois)
      else (roi, rois))"
  by pat_completeness auto
termination
  by (relation "measure (\<lambda>(t, i, roi, rois). length rois - i)") (auto simp: pop_at_def)

declare merge_rois_scan16.simps [simp del]

lemma merge_rois_scan16_length:
  "length (snd (merge_rois_scan16 t i roi rois)) \<le> length rois"
proof (induction t i roi rois rule: merge_rois_scan16.induct)
  case (1 t i roi rois)
  show ?case
  proof (cases "i < length rois")
    case False
    then show ?thesis by (subst merge_rois_scan16.simps) simp
  next
    case True
    note in_range = this
    show ?thesis
    proof (cases "iou16 roi (rois ! i) > t")
      case True
      have "length (pop_at i rois) \<le> length rois"
        by (simp add: pop_at_def)
      with "1.IH"(1) [OF in_range True] in_range True show ?thesis
        by (subst merge_rois_scan16.simps) simp
    next
      case False
      with "1.IH"(2) [OF in_range False] in_range show ?thesis
        by (subst merge_rois_scan16.simps) simp
    qed
  qed
qed

function merge_rois_loop16 :: "rat \<Rightarrow> Rect16 list \<Rightarrow> Rect16 list \<Rightarrow> Rect16 list" where
  "merge_rois_loop16 overlap_threshold merged [] = merged"
| "merge_rois_loop16 overlap_threshold merged (roi # rois) =
     (let r = merge_rois_scan16 overlap_threshold 0 roi rois
      in merge_rois_loop16 overlap_threshold (merged @ [fst r]) (snd r))"
  by pat_completeness auto
termination
  by (relation "measure (\<lambda>(t, merged, rois). length rois)")
    (auto simp: le_imp_less_Suc merge_rois_scan16_length)

definition merge_rois16 :: "Rect16 list \<Rightarrow> Rect16 list" where
  "merge_rois16 rois = merge_rois_loop16 (1 / 2) [] rois"

text \<open>
  \<^verbatim>\<open>
  def _calc_segment_rois(self, frames, face_detections):
      rois = []
      for face_detection in face_detections:
          if face_detection is not None:
              for bbox in face_detection:
                  x1, y1, x2, y2 = bbox[:4]
                  rois.append(Rect(x1, y1, x2 - x1, y2 - y1))
      return self.merge_rois(rois)
  \<close>
\<close>

type_synonym bounding_box = "16 word \<times> 16 word \<times> 16 word \<times> 16 word"

type_synonym face_detection = "bounding_box list option"

definition bbox_rect :: "bounding_box \<Rightarrow> Rect16" where
  "bbox_rect bbox =
     (case bbox of (x1, y1, x2, y2) \<Rightarrow>
        \<lparr>x16 = x1, y16 = y1, width16 = x2 - x1, height16 = y2 - y1\<rparr>)"

definition calc_segment_rois :: "face_detection list \<Rightarrow> Rect16 list" where
  "calc_segment_rois face_detections =
     merge_rois16 (concat (map (\<lambda>face_detection.
                                case face_detection of
                                  None \<Rightarrow> []
                                | Some boxes \<Rightarrow> map bbox_rect boxes)
                             face_detections))"

text \<open>
  \<^verbatim>\<open>_calc_crop\<close> and \<^verbatim>\<open>_calc_split_screen_crops\<close> combine the fields of a ROI with Python
  integers (\<^verbatim>\<open>roi.width // 2\<close>, \<^verbatim>\<open>resize_width // 2\<close>) and end in \<^verbatim>\<open>int(crop.x)\<close>. NumPy
  carries out an operation of an \<^verbatim>\<open>np.int16\<close> with a Python integer in 64 bits (since
  NumPy 2 in 16 bits, with the same value as long as the centre of the ROI stays below
  \<open>2 ^ 15\<close>), so that a ROI of the detector enters them with the integer values of its
  fields.
\<close>

definition rect_of_rect16 :: "Rect16 \<Rightarrow> Rect" where
  "rect_of_rect16 r =
     \<lparr>x = sint (x16 r), y = sint (y16 r), width = sint (width16 r),
      height = sint (height16 r)\<rparr>"

text \<open>
  The tail of the loop body of \<^verbatim>\<open>_add_x_y_coords_to_each_segment_batch\<close>, which turns
  the ROIs of a segment into its crop keys:
  \<^verbatim>\<open>
  if len(rois) == 1:
      crop = self._calc_crop(rois[0], resize_width, resize_height)
      segment["x"] = int(crop.x)
      segment["y"] = int(crop.y)
      segment["crop_type"] = "single"
  elif len(rois) > 1:
      segment["crops"] = self._calc_split_screen_crops(rois, resize_width, resize_height)
      segment["crop_type"] = "split"
  else:
      # Fallback to center crop if no ROIs found
      segment["x"] = (video_file.get_width_pixels() - resize_width) // 2
      segment["y"] = (video_file.get_height_pixels() - resize_height) // 2
      segment["crop_type"] = "single"
  \<close>
\<close>

definition add_crop_coordinates ::
    "VideoFile \<Rightarrow> int \<Rightarrow> int \<Rightarrow> Rect list \<Rightarrow> face_segment \<Rightarrow> crop_segment" where
  "add_crop_coordinates video_file resize_width resize_height rois segment =
     (if length rois = 1 then
        (let crop = calc_crop (rois ! 0) resize_width resize_height
         in \<lparr>speakers = speakers segment, start_time = start_time segment,
             end_time = end_time segment, crop_type = ''single'',
             crop_x = Some (x crop), crop_y = Some (y crop), crops = None\<rparr>)
      else if length rois > 1 then
        \<lparr>speakers = speakers segment, start_time = start_time segment,
         end_time = end_time segment, crop_type = ''split'',
         crop_x = None, crop_y = None,
         crops = Some (calc_split_screen_crops rois resize_width resize_height)\<rparr>
      else
        \<lparr>speakers = speakers segment, start_time = start_time segment,
         end_time = end_time segment, crop_type = ''single'',
         crop_x = Some ((width_pixels video_file - resize_width) div 2),
         crop_y = Some ((height_pixels video_file - resize_height) div 2),
         crops = None\<rparr>)"

text \<open>
  The first loop of \<^verbatim>\<open>_add_x_y_coords_to_each_segment_batch\<close> fixes how many frames are
  sampled from each segment in which a face was found; which frames are drawn is random
  and not modelled. \<^verbatim>\<open>np.random.choice\<close> raises \<^verbatim>\<open>ValueError\<close> for a negative sample
  size.

  \<open>frames_left\<close> is the integer part of a float expression, and the rounding of the float
  operations decides it: for a segment that ends at 0.61 with the first face at 0.29, at
  25 frames per second, the floats give \<open>int(7.999999999999999) = 7\<close> where the expression
  without rounding gives 8. The model therefore does not compute it: the function
  \<open>frames_left_of end_time first_face_sec fps\<close>, the value of
  \<^verbatim>\<open>int((end_time - (end_time - first_face_sec) / 8 - first_face_sec) * fps + 1)\<close> in float
  arithmetic, is a parameter, of which nothing is assumed.
  \<^verbatim>\<open>
  for segment in segments:
      if segment["found_face"] is False:
          continue
      end_time = segment["end_time"]
      first_face_sec = segment["first_face_sec"]
      analyze_end_time = end_time - (end_time - first_face_sec) / 8
      frames_left = int((analyze_end_time - first_face_sec) * fps + 1)
      num_samples = min(frames_left, samples_per_segment)
      segment["num_samples"] = num_samples
      detect_secs.append(first_face_sec)
      sample_frames = np.sort(
          np.random.choice(range(1, frames_left), num_samples - 1, replace=False))
      ...
  \<close>
\<close>

fun set_num_samples ::
    "(rat \<Rightarrow> rat \<Rightarrow> rat \<Rightarrow> int) \<Rightarrow> rat \<Rightarrow> int \<Rightarrow> face_segment list
     \<Rightarrow> error + face_segment list" where
  "set_num_samples frames_left_of fps samples_per_segment [] = Inr []"
| "set_num_samples frames_left_of fps samples_per_segment (segment # segments) =
     (if \<not> found_face segment
      then ebind (set_num_samples frames_left_of fps samples_per_segment segments)
             (\<lambda>rest. Inr (segment # rest))
      else
        (let frames_left = frames_left_of (end_time segment) (first_face_sec segment) fps;
             num_samples' = min frames_left samples_per_segment
         in if num_samples' - 1 < 0 then Inl ValueError
            else ebind (set_num_samples frames_left_of fps samples_per_segment segments)
                   (\<lambda>rest. Inr (segment\<lparr>num_samples := num_samples'\<rparr> # rest))))"

text \<open>
  The same expression without rounding. The float computation gives this value whenever
  none of its operations rounds, as for the times of the examples below: they are
  multiples of \<open>1 / 2\<close> below 16 and the frame rate is 25, so every intermediate result is
  a multiple of \<open>1 / 16\<close> below \<open>2 ^ 10\<close> and a float holds it exactly.
\<close>

definition exact_frames_left :: "rat \<Rightarrow> rat \<Rightarrow> rat \<Rightarrow> int" where
  "exact_frames_left end_time' first_face_sec' fps =
     (let analyze_end_time = end_time' - (end_time' - first_face_sec') / 8
      in py_int ((analyze_end_time - first_face_sec') * fps + 1))"

text \<open>
  The second loop, with the detections of all sampled frames of the batch in
  \<open>face_detections\<close> (the answer of the external detector, one entry per frame) and the
  running offset \<open>idx\<close>; a Python slice \<open>xs[a:b]\<close> with \<open>0 \<le> a \<le> b\<close> is
  \<open>take (b - a) (drop a xs)\<close>.
  \<^verbatim>\<open>
  idx = 0
  for segment in segments:
      if segment["found_face"] is True:
          rois = self._calc_segment_rois(
              frames=frames[idx : idx + segment["num_samples"]],
              face_detections=face_detections[idx : idx + segment["num_samples"]])
          idx += segment["num_samples"]
          del segment["num_samples"]
      else:
          rois = [Rect(x=W // 4, y=H // 4, width=W // 2, height=H // 2)]
      del segment["found_face"]
      del segment["first_face_sec"]
      ... add crop coordinates to segment ...
  \<close>
\<close>

fun calc_rois_loop ::
    "VideoFile \<Rightarrow> int \<Rightarrow> int \<Rightarrow> face_detection list \<Rightarrow> nat \<Rightarrow> face_segment list
     \<Rightarrow> crop_segment list" where
  "calc_rois_loop video_file resize_width resize_height face_detections idx [] = []"
| "calc_rois_loop video_file resize_width resize_height face_detections idx
       (segment # segments) =
     (if found_face segment then
        (let rois = map rect_of_rect16
                      (calc_segment_rois
                         (take (nat (num_samples segment)) (drop idx face_detections)))
         in add_crop_coordinates video_file resize_width resize_height rois segment
            # calc_rois_loop video_file resize_width resize_height face_detections
                (idx + nat (num_samples segment)) segments)
      else
        (let rois = [\<lparr>x = width_pixels video_file div 4, y = height_pixels video_file div 4,
                      width = width_pixels video_file div 2,
                      height = height_pixels video_file div 2\<rparr>]
         in add_crop_coordinates video_file resize_width resize_height rois segment
            # calc_rois_loop video_file resize_width resize_height face_detections
                idx segments))"

definition add_x_y_coords_to_each_segment_batch ::
    "(rat \<Rightarrow> rat \<Rightarrow> rat \<Rightarrow> int) \<Rightarrow> face_segment list \<Rightarrow> VideoFile \<Rightarrow> int \<Rightarrow> int \<Rightarrow> int
     \<Rightarrow> face_detection list \<Rightarrow> error + crop_segment list" where
  "add_x_y_coords_to_each_segment_batch frames_left_of segments video_file resize_width
       resize_height samples_per_segment face_detections =
     ebind (set_num_samples frames_left_of (frame_rate video_file) samples_per_segment
              segments)
       (\<lambda>segments'. Inr (calc_rois_loop video_file resize_width resize_height
                            face_detections 0 segments'))"

text \<open>
  Where the frames of a segment start in \<open>face_detections\<close>: the sum of the sample counts
  of the segments before it in which a face was found.
\<close>

fun detections_offset :: "face_segment list \<Rightarrow> nat" where
  "detections_offset [] = 0"
| "detections_offset (segment # segments) =
     (if found_face segment then nat (num_samples segment) else 0)
     + detections_offset segments"

text \<open>No face in any of the frames: the detector answered \<^verbatim>\<open>None\<close> or an empty array.\<close>

definition no_faces :: "face_detection list \<Rightarrow> bool" where
  "no_faces face_detections \<longleftrightarrow> (\<forall>d \<in> set face_detections. d = None \<or> d = Some [])"

text \<open>The centred crop of the fallback branch, as the keys of the segment.\<close>

definition center_fallback :: "VideoFile \<Rightarrow> int \<Rightarrow> int \<Rightarrow> face_segment \<Rightarrow> crop_segment" where
  "center_fallback video_file resize_width resize_height segment =
     \<lparr>speakers = speakers segment, start_time = start_time segment,
      end_time = end_time segment, crop_type = ''single'',
      crop_x = Some ((width_pixels video_file - resize_width) div 2),
      crop_y = Some ((height_pixels video_file - resize_height) div 2),
      crops = None\<rparr>"

lemma calc_segment_rois_no_faces:
  assumes "no_faces ds"
  shows "calc_segment_rois ds = []"
proof -
  from assms have c: "concat (map (case_option [] (map bbox_rect)) ds) = []"
    by (induction ds) (auto simp: no_faces_def)
  show ?thesis
    unfolding calc_segment_rois_def merge_rois16_def
    by (simp only: c merge_rois_loop16.simps)
qed

text \<open>
  The 16-bit arithmetic at work: two detections of the same face of 100 x 100 pixels have
  IoU 1 and are merged; for the same face at 200 x 200 pixels every area is \<open>-25536\<close>, the
  union is not positive, the IoU is 0, and the two detections stay two ROIs.
\<close>

lemma calc_segment_rois_small_face:
  "calc_segment_rois [Some [(100, 100, 200, 200)], Some [(100, 100, 200, 200)]]
   = [\<lparr>x16 = 100, y16 = 100, width16 = 100, height16 = 100\<rparr>]"
  by (simp add: calc_segment_rois_def merge_rois16_def bbox_rect_def
      merge_rois_scan16.simps iou16_def union_rois16_def pop_at_def max16_def min16_def
      Let_def)

lemma calc_segment_rois_large_face:
  "calc_segment_rois [Some [(100, 100, 300, 300)], Some [(100, 100, 300, 300)]]
   = [\<lparr>x16 = 100, y16 = 100, width16 = 200, height16 = 200\<rparr>,
      \<lparr>x16 = 100, y16 = 100, width16 = 200, height16 = 200\<rparr>]"
  by (simp add: calc_segment_rois_def merge_rois16_def bbox_rect_def
      merge_rois_scan16.simps iou16_def max16_def min16_def Let_def)

lemma calc_rois_loop_length:
  "length (calc_rois_loop vf rw rh fds idx segs) = length segs"
  by (induction segs arbitrary: idx) (simp_all add: Let_def)

lemma calc_rois_loop_nth:
  "i < length segs \<Longrightarrow> found_face (segs ! i) \<Longrightarrow>
   calc_rois_loop vf rw rh fds idx segs ! i =
     add_crop_coordinates vf rw rh
       (map rect_of_rect16
          (calc_segment_rois (take (nat (num_samples (segs ! i)))
             (drop (idx + detections_offset (take i segs)) fds)))) (segs ! i)"
proof (induction segs arbitrary: idx i)
  case Nil
  then show ?case by simp
next
  case (Cons s segs)
  show ?case
  proof (cases i)
    case 0
    with Cons.prems show ?thesis by (simp add: Let_def)
  next
    case (Suc j)
    with Cons.prems have j: "j < length segs" "found_face (segs ! j)" by simp_all
    show ?thesis
      using Cons.IH [OF j] Suc by (simp add: Let_def add.assoc)
  qed
qed

section \<open>Timeline merge (\<^verbatim>\<open>Resizer._merge_scene_change_and_speaker_segments\<close>)\<close>

text \<open>
  The head of the loop body: the read of \<^verbatim>\<open>speaker_segments[segments_idx]\<close> and the
  inner \<^verbatim>\<open>while\<close>; an index beyond the list raises \<^verbatim>\<open>IndexError\<close>.
  \<^verbatim>\<open>
  segment = speaker_segments[segments_idx]
  while scene_change_sec > (segment["end_time"]):
      segments_idx += 1
      segment = speaker_segments[segments_idx]
  \<close>
\<close>

function advance_to_segment ::
    "'t::linorder \<Rightarrow> nat \<Rightarrow> 't speaker_segment list \<Rightarrow> error + nat" where
  "advance_to_segment scene_change_sec segments_idx speaker_segments =
     (if segments_idx < length speaker_segments
      then (if scene_change_sec > end_time (speaker_segments ! segments_idx)
            then advance_to_segment scene_change_sec (Suc segments_idx) speaker_segments
            else Inr segments_idx)
      else Inl IndexError)"
  by pat_completeness auto
termination
  by (relation "measure (\<lambda>(t, idx, segs). length segs - idx)") auto

declare advance_to_segment.simps [simp del]

text \<open>
  The rest of the loop body, for one scene change, on the state \<open>(segments_idx,
  speaker_segments)\<close>. The dictionaries are updated in place; the model returns the
  updated list.
  \<^verbatim>\<open>
  if 0 < (segment["end_time"] - scene_change_sec) < scene_merge_threshold:
      segment["end_time"] = scene_change_sec
      if segments_idx == len(speaker_segments) - 1:
          continue
      next_segment = speaker_segments[segments_idx + 1]
      next_segment["start_time"] = scene_change_sec
      continue
  if 0 < (scene_change_sec - segment["start_time"]) < scene_merge_threshold:
      segment["start_time"] = scene_change_sec
      if segments_idx == 0:
          continue
      prev_segment = speaker_segments[segments_idx - 1]
      prev_segment["end_time"] = scene_change_sec
      continue
  if scene_change_sec == segment["end_time"]:
      continue
  new_segment = {"start_time": scene_change_sec, "speakers": segment["speakers"],
                 "end_time": segment["end_time"]}
  segment["end_time"] = scene_change_sec
  speaker_segments = (speaker_segments[: segments_idx + 1] + [new_segment]
                      + speaker_segments[segments_idx + 1 :])
  \<close>
\<close>

definition scene_change_step ::
    "'t::{linorder,minus,zero} \<Rightarrow> 't \<Rightarrow> nat \<times> 't speaker_segment list
     \<Rightarrow> error + nat \<times> 't speaker_segment list" where
  "scene_change_step scene_merge_threshold scene_change_sec state =
     (case state of (segments_idx0, speaker_segments) \<Rightarrow>
      ebind (advance_to_segment scene_change_sec segments_idx0 speaker_segments)
        (\<lambda>segments_idx.
           let segment = speaker_segments ! segments_idx in
           if 0 < end_time segment - scene_change_sec
              \<and> end_time segment - scene_change_sec < scene_merge_threshold
           then
             (let segs1 = speaker_segments
                            [segments_idx := segment\<lparr>end_time := scene_change_sec\<rparr>]
              in if segments_idx = length speaker_segments - 1
                 then Inr (segments_idx, segs1)
                 else Inr (segments_idx,
                           segs1[segments_idx + 1 :=
                                   (segs1 ! (segments_idx + 1))
                                   \<lparr>start_time := scene_change_sec\<rparr>]))
           else if 0 < scene_change_sec - start_time segment
                   \<and> scene_change_sec - start_time segment < scene_merge_threshold
           then
             (let segs1 = speaker_segments
                            [segments_idx := segment\<lparr>start_time := scene_change_sec\<rparr>]
              in if segments_idx = 0
                 then Inr (segments_idx, segs1)
                 else Inr (segments_idx,
                           segs1[segments_idx - 1 :=
                                   (segs1 ! (segments_idx - 1))
                                   \<lparr>end_time := scene_change_sec\<rparr>]))
           else if scene_change_sec = end_time segment
           then Inr (segments_idx, speaker_segments)
           else
             (let new_segment = \<lparr>speakers = speakers segment,
                                 start_time = scene_change_sec,
                                 end_time = end_time segment\<rparr>;
                  segs1 = speaker_segments
                            [segments_idx := segment\<lparr>end_time := scene_change_sec\<rparr>]
              in Inr (segments_idx,
                      take (segments_idx + 1) segs1 @ [new_segment]
                      @ drop (segments_idx + 1) segs1))))"

text \<open>
  \<^verbatim>\<open>
  segments_idx = 0
  for scene_change_sec in scene_changes:
      ... loop body ...
  return speaker_segments
  \<close>
\<close>

fun merge_scene_changes_loop ::
    "'t::{linorder,minus,zero} \<Rightarrow> 't list \<Rightarrow> nat \<times> 't speaker_segment list
     \<Rightarrow> error + 't speaker_segment list" where
  "merge_scene_changes_loop scene_merge_threshold [] state = Inr (snd state)"
| "merge_scene_changes_loop scene_merge_threshold (scene_change_sec # scene_changes) state =
     ebind (scene_change_step scene_merge_threshold scene_change_sec state)
       (merge_scene_changes_loop scene_merge_threshold scene_changes)"

definition merge_scene_change_and_speaker_segments ::
    "'t::{linorder,minus,zero} speaker_segment list \<Rightarrow> 't list \<Rightarrow> 't
     \<Rightarrow> error + 't speaker_segment list" where
  "merge_scene_change_and_speaker_segments speaker_segments scene_changes
       scene_merge_threshold =
     merge_scene_changes_loop scene_merge_threshold scene_changes (0, speaker_segments)"






















text \<open>
  The loop does not guard the read of \<^verbatim>\<open>speaker_segments[segments_idx]\<close> against the end
  of the list. When a scene change has moved the end of the last segment to itself, the
  next scene change is greater than every end time, the inner \<^verbatim>\<open>while\<close> walks off the
  list, and the merge raises \<^verbatim>\<open>IndexError\<close>: one segment \<open>[0, 10]\<close> with the scene changes
  9.9 and 9.95 and the threshold 0.25, or two segments \<open>[0, 10]\<close>, \<open>[10, 20]\<close> with the
  scene changes 19.9 and 20.
\<close>

lemma merge_scene_changes_index_error:
  "merge_scene_change_and_speaker_segments
     [\<lparr>speakers = [0], start_time = 0 :: rat, end_time = 10\<rparr>] [99 / 10, 199 / 20] (1 / 4)
   = Inl IndexError"
  "merge_scene_change_and_speaker_segments
     [\<lparr>speakers = [0], start_time = 0 :: rat, end_time = 10\<rparr>,
      \<lparr>speakers = [1], start_time = 10, end_time = 20\<rparr>] [199 / 10, 20] (1 / 4)
   = Inl IndexError"
  by (simp_all add: merge_scene_change_and_speaker_segments_def scene_change_step_def
      advance_to_segment.simps ebind_def Let_def)


section \<open>Batch count (\<^verbatim>\<open>Resizer._calc_n_batches\<close>)\<close>

text \<open>
  Floor division \<^verbatim>\<open>a // b\<close> of a Python integer by a float; the result is a float. This is
  the floor of the exact quotient; the float operation can give one less
  (\<^verbatim>\<open>900 // (1600 / 960)\<close> is 539.0 where the exact floor is 540). Its only use below is the
  height handed to the parameter \<^verbatim>\<open>calc_img_bytes\<close>.
\<close>

definition py_floordiv_float :: "int \<Rightarrow> rat \<Rightarrow> error + rat" where
  "py_floordiv_float a b =
     (if b = 0 then Inl ZeroDivisionError else Inr (of_int \<lfloor>of_int a / b\<rfloor>))"

text \<open>
  The function reads three things from outside the sources at hand, which are parameters
  here: \<^verbatim>\<open>calc_img_bytes\<close> (of \<^verbatim>\<open>img_proc.py\<close>), \<^verbatim>\<open>torch.cuda.is_available()\<close> and
  \<^verbatim>\<open>pytorch.get_free_cpu_memory()\<close>. The calls of \<^verbatim>\<open>logging.debug\<close> and
  \<^verbatim>\<open>bytes_to_gibibytes\<close> leave no trace except for the divisions in their arguments.
  \<^verbatim>\<open>
  vid_height = video_file.get_height_pixels()
  vid_width = video_file.get_width_pixels()
  num_color_channels = 3
  bytes_per_frame = calc_img_bytes(vid_height, vid_width, num_color_channels)
  total_extract_bytes = num_frames * bytes_per_frame
  downsample_factor = max(vid_width / face_detect_width, 1)
  face_detect_height = int(vid_height // downsample_factor)
  bytes_per_frame = calc_img_bytes(face_detect_height, face_detect_width, num_color_channels)
  total_face_detect_bytes = num_frames * bytes_per_frame
  free_cpu_memory = pytorch.get_free_cpu_memory()
  if torch.cuda.is_available():
      n_extract_batches = int((total_extract_bytes // free_cpu_memory) + 1)
  else:
      total_extract_bytes += total_face_detect_bytes
      n_extract_batches = int((total_extract_bytes // free_cpu_memory) + 1)
      n_face_detect_batches = 0
  n_batches = int(max(n_extract_batches, n_face_detect_batches))
  cpu_mem_per_batch = bytes_to_gibibytes(total_extract_bytes // n_batches)
  if n_face_detect_batches == 0:
      gpu_mem_per_batch = 0
  else:
      gpu_mem_per_batch = bytes_to_gibibytes(total_face_detect_bytes // n_batches)
  return n_batches
  \<close>
  The part from \<^verbatim>\<open>n_batches = ...\<close> on is \<open>calc_n_batches_tail\<close>.
\<close>

definition calc_n_batches_tail :: "int \<Rightarrow> int \<Rightarrow> int \<Rightarrow> int \<Rightarrow> error + int" where
  "calc_n_batches_tail total_extract_bytes total_face_detect_bytes n_extract_batches
       n_face_detect_batches =
     (let n_batches = max n_extract_batches n_face_detect_batches in
      ebind (py_floordiv total_extract_bytes n_batches) (\<lambda>cpu_mem_per_batch.
        if n_face_detect_batches = 0 then Inr n_batches
        else ebind (py_floordiv total_face_detect_bytes n_batches)
               (\<lambda>gpu_mem_per_batch. Inr n_batches)))"

definition calc_n_batches ::
    "(int \<Rightarrow> int \<Rightarrow> int \<Rightarrow> int) \<Rightarrow> bool \<Rightarrow> int \<Rightarrow> VideoFile \<Rightarrow> int \<Rightarrow> int \<Rightarrow> int
     \<Rightarrow> error + int" where
  "calc_n_batches calc_img_bytes cuda_is_available free_cpu_memory video_file num_frames
       face_detect_width n_face_detect_batches =
     (let vid_height = height_pixels video_file;
          vid_width = width_pixels video_file;
          num_color_channels = 3;
          bytes_per_frame = calc_img_bytes vid_height vid_width num_color_channels;
          total_extract_bytes = num_frames * bytes_per_frame
      in ebind (py_truediv vid_width face_detect_width) (\<lambda>ratio.
         let downsample_factor = max ratio 1 in
         ebind (py_floordiv_float vid_height downsample_factor) (\<lambda>q.
         let face_detect_height = py_int q;
             bytes_per_frame' =
               calc_img_bytes face_detect_height face_detect_width num_color_channels;
             total_face_detect_bytes = num_frames * bytes_per_frame'
         in if cuda_is_available then
              ebind (py_floordiv total_extract_bytes free_cpu_memory) (\<lambda>b.
                calc_n_batches_tail total_extract_bytes total_face_detect_bytes (b + 1)
                  n_face_detect_batches)
            else
              ebind (py_floordiv (total_extract_bytes + total_face_detect_bytes)
                       free_cpu_memory) (\<lambda>b.
                calc_n_batches_tail (total_extract_bytes + total_face_detect_bytes)
                  total_face_detect_bytes (b + 1) 0))))"

lemma calc_n_batches_tail_ok:
  "1 \<le> ne \<Longrightarrow> \<exists>n. calc_n_batches_tail te tf ne nb = Inr n \<and> 1 \<le> n"
  by (auto simp: calc_n_batches_tail_def ebind_def py_floordiv_def Let_def max_def)

lemma calc_n_batches_zero_free:
  "calc_n_batches cib cuda 0 vf nf fdw nb = Inl ZeroDivisionError"
  by (simp add: calc_n_batches_def ebind_def py_truediv_def py_floordiv_float_def
      py_floordiv_def Let_def)

lemma calc_n_batches_pos_free:
  assumes "0 < free" "fdw \<noteq> 0" "0 \<le> nf" "\<forall>h w c. 0 \<le> cib h w c"
  shows "\<exists>n. calc_n_batches cib cuda free vf nf fdw nb = Inr n \<and> 1 \<le> n"
proof -
  have nonneg: "0 \<le> nf * cib h w c" for h w c
    using assms(3,4) by simp
  have q: "1 \<le> t div free + 1" if "0 \<le> t" for t
    using that assms(1) by (simp add: pos_imp_zdiv_nonneg_iff)
  have "(1::rat) \<le> max (of_int (width_pixels vf) / of_int fdw) 1"
    by simp
  then have df: "max (of_int (width_pixels vf) / of_int fdw) (1::rat) \<noteq> 0"
    by linarith
  show ?thesis
  proof (cases cuda)
    case True
    with assms(1,2) df show ?thesis
      using calc_n_batches_tail_ok [OF q [OF nonneg]]
      by (simp add: calc_n_batches_def ebind_def py_truediv_def py_floordiv_float_def
          py_floordiv_def Let_def)
  next
    case False
    have "0 \<le> nf * cib h w c + nf * cib h' w' c'" for h w c h' w' c'
      using nonneg [of h w c] nonneg [of h' w' c'] by linarith
    from calc_n_batches_tail_ok [OF q [OF this]] False assms(1,2) df show ?thesis
      by (simp add: calc_n_batches_def ebind_def py_truediv_def py_floordiv_float_def
          py_floordiv_def Let_def)
  qed
qed

section \<open>Face search (\<^verbatim>\<open>Resizer._find_first_sec_with_face_for_each_segment\<close>)\<close>






















































section \<open>The output record (\<^verbatim>\<open>segment.py\<close>) and the end of \<^verbatim>\<open>resize\<close>\<close>

text \<open>
  The class \<^verbatim>\<open>Segment\<close>; its attributes \<^verbatim>\<open>_speakers\<close>, \<^verbatim>\<open>_start_time\<close>, ... are the
  fields \<open>seg_speakers\<close>, \<open>seg_start_time\<close>, ...; the last four default to \<^verbatim>\<open>None\<close>.
\<close>

record Segment =
  seg_speakers :: "int list"
  seg_start_time :: rat
  seg_end_time :: rat
  seg_x :: int
  seg_y :: int
  seg_width :: "int option"
  seg_height :: "int option"
  seg_target_x :: "int option"
  seg_target_y :: "int option"

text \<open>
  \<^verbatim>\<open>
  def __bool__(self) -> bool:
      return (bool(self._speakers) and bool(self._start_time) and bool(self._end_time)
              and bool(self._x) and bool(self._y))
  \<close>
  A list is true when it is not empty, a number when it is not zero.
\<close>

definition segment_bool :: "Segment \<Rightarrow> bool" where
  "segment_bool s \<longleftrightarrow>
     seg_speakers s \<noteq> [] \<and> seg_start_time s \<noteq> 0 \<and> seg_end_time s \<noteq> 0
     \<and> seg_x s \<noteq> 0 \<and> seg_y s \<noteq> 0"

text \<open>
  The final loop of \<^verbatim>\<open>resize\<close>:
  \<^verbatim>\<open>
  crop_segments = []
  for segment in segments:
      if segment['crop_type'] == 'single':
          crop_segments.append(Segment(speakers=segment["speakers"],
              start_time=segment["start_time"], end_time=segment["end_time"],
              x=segment["x"], y=segment["y"]))
      elif segment['crop_type'] == 'split':
          for crop in segment['crops']:
              crop_segments.append(Segment(speakers=segment["speakers"],
                  start_time=segment["start_time"], end_time=segment["end_time"],
                  x=crop["x"], y=crop["y"], width=crop["width"], height=crop["height"],
                  target_x=crop["target_x"], target_y=crop["target_y"]))
  \<close>
\<close>

definition key_or_raise :: "string \<Rightarrow> 'a option \<Rightarrow> error + 'a" where
  "key_or_raise k v = (case v of None \<Rightarrow> Inl (KeyError k) | Some a \<Rightarrow> Inr a)"

definition split_crop_segment :: "crop_segment \<Rightarrow> crop_dict \<Rightarrow> error + Segment" where
  "split_crop_segment segment crop =
     ebind (dict_get crop ''x'') (\<lambda>cx.
     ebind (dict_get crop ''y'') (\<lambda>cy.
     ebind (dict_get crop ''width'') (\<lambda>cw.
     ebind (dict_get crop ''height'') (\<lambda>ch.
     ebind (dict_get crop ''target_x'') (\<lambda>tx.
     ebind (dict_get crop ''target_y'') (\<lambda>ty.
       Inr \<lparr>seg_speakers = speakers segment, seg_start_time = start_time segment,
            seg_end_time = end_time segment, seg_x = cx, seg_y = cy,
            seg_width = Some cw, seg_height = Some ch,
            seg_target_x = Some tx, seg_target_y = Some ty\<rparr>))))))"

fun split_crop_segments :: "crop_segment \<Rightarrow> crop_dict list \<Rightarrow> error + Segment list" where
  "split_crop_segments segment [] = Inr []"
| "split_crop_segments segment (crop # rest) =
     ebind (split_crop_segment segment crop) (\<lambda>s.
     ebind (split_crop_segments segment rest) (\<lambda>ss. Inr (s # ss)))"

definition segment_outputs :: "crop_segment \<Rightarrow> error + Segment list" where
  "segment_outputs segment =
     (if crop_type segment = ''single'' then
        ebind (key_or_raise ''x'' (crop_x segment)) (\<lambda>sx.
        ebind (key_or_raise ''y'' (crop_y segment)) (\<lambda>sy.
          Inr [\<lparr>seg_speakers = speakers segment, seg_start_time = start_time segment,
                seg_end_time = end_time segment, seg_x = sx, seg_y = sy,
                seg_width = None, seg_height = None,
                seg_target_x = None, seg_target_y = None\<rparr>]))
      else if crop_type segment = ''split'' then
        ebind (key_or_raise ''crops'' (crops segment)) (split_crop_segments segment)
      else Inr [])"

fun crop_segments_of :: "crop_segment list \<Rightarrow> error + Segment list" where
  "crop_segments_of [] = Inr []"
| "crop_segments_of (segment # segments) =
     ebind (segment_outputs segment) (\<lambda>out.
     ebind (crop_segments_of segments) (\<lambda>rest. Inr (out @ rest)))"

section \<open>Segment coalescing (\<^verbatim>\<open>Resizer._merge_identical_segments\<close>)\<close>

text \<open>
  \<^verbatim>\<open>
  def _are_single_crops_similar(self, segment1, segment2, video_width, video_height,
                                max_diff_ratio):
      x_diff = abs(segment1['x'] - segment2['x']) / video_width
      y_diff = abs(segment1['y'] - segment2['y']) / video_height
      return x_diff < max_diff_ratio and y_diff < max_diff_ratio
  \<close>
\<close>

definition are_single_crops_similar ::
    "crop_segment \<Rightarrow> crop_segment \<Rightarrow> int \<Rightarrow> int \<Rightarrow> rat \<Rightarrow> error + bool" where
  "are_single_crops_similar segment1 segment2 video_width video_height max_diff_ratio =
     ebind (key_or_raise ''x'' (crop_x segment1)) (\<lambda>x1.
     ebind (key_or_raise ''x'' (crop_x segment2)) (\<lambda>x2.
     ebind (py_truediv \<bar>x1 - x2\<bar> video_width) (\<lambda>x_diff.
     ebind (key_or_raise ''y'' (crop_y segment1)) (\<lambda>y1.
     ebind (key_or_raise ''y'' (crop_y segment2)) (\<lambda>y2.
     ebind (py_truediv \<bar>y1 - y2\<bar> video_height) (\<lambda>y_diff.
       Inr (x_diff < max_diff_ratio \<and> y_diff < max_diff_ratio)))))))"

text \<open>
  \<^verbatim>\<open>
  def _are_split_crops_similar(self, crops1, crops2, video_width, video_height,
                               max_diff_ratio):
      if len(crops1) != len(crops2):
          return False
      for crop1, crop2 in zip(crops1, crops2):
          x_diff = abs(crop1['x'] - crop2['x']) / video_width
          y_diff = abs(crop1['y'] - crop2['y']) / video_height
          if x_diff >= max_diff_ratio or y_diff >= max_diff_ratio:
              return False
      return True
  \<close>
  \<open>split_pairs_similar\<close> is the \<^verbatim>\<open>for\<close> loop over the zipped lists.
\<close>

fun split_pairs_similar ::
    "crop_dict list \<Rightarrow> crop_dict list \<Rightarrow> int \<Rightarrow> int \<Rightarrow> rat \<Rightarrow> error + bool" where
  "split_pairs_similar (crop1 # crops1) (crop2 # crops2) video_width video_height
       max_diff_ratio =
     ebind (dict_get crop1 ''x'') (\<lambda>x1.
     ebind (dict_get crop2 ''x'') (\<lambda>x2.
     ebind (py_truediv \<bar>x1 - x2\<bar> video_width) (\<lambda>x_diff.
     ebind (dict_get crop1 ''y'') (\<lambda>y1.
     ebind (dict_get crop2 ''y'') (\<lambda>y2.
     ebind (py_truediv \<bar>y1 - y2\<bar> video_height) (\<lambda>y_diff.
       if x_diff \<ge> max_diff_ratio \<or> y_diff \<ge> max_diff_ratio then Inr False
       else split_pairs_similar crops1 crops2 video_width video_height
              max_diff_ratio))))))"
| "split_pairs_similar crops1 crops2 video_width video_height max_diff_ratio = Inr True"

definition are_split_crops_similar ::
    "crop_dict list \<Rightarrow> crop_dict list \<Rightarrow> int \<Rightarrow> int \<Rightarrow> rat \<Rightarrow> error + bool" where
  "are_split_crops_similar crops1 crops2 video_width video_height max_diff_ratio =
     (if length crops1 \<noteq> length crops2 then Inr False
      else split_pairs_similar crops1 crops2 video_width video_height max_diff_ratio)"

text \<open>
  \<^verbatim>\<open>
  def _merge_single_crop_segments(self, segment1, segment2):
      segment1['x'] = (segment1['x'] + segment2['x']) // 2
      segment1['y'] = (segment1['y'] + segment2['y']) // 2
      segment1['end_time'] = segment2['end_time']
  \<close>
  The model returns the updated \<open>segment1\<close>.
\<close>

definition merge_single_crop_segments ::
    "crop_segment \<Rightarrow> crop_segment \<Rightarrow> error + crop_segment" where
  "merge_single_crop_segments segment1 segment2 =
     ebind (key_or_raise ''x'' (crop_x segment1)) (\<lambda>x1.
     ebind (key_or_raise ''x'' (crop_x segment2)) (\<lambda>x2.
     ebind (key_or_raise ''y'' (crop_y segment1)) (\<lambda>y1.
     ebind (key_or_raise ''y'' (crop_y segment2)) (\<lambda>y2.
       Inr (segment1\<lparr>crop_x := Some ((x1 + x2) div 2),
                      crop_y := Some ((y1 + y2) div 2),
                      end_time := end_time segment2\<rparr>)))))"

text \<open>
  \<^verbatim>\<open>
  def _merge_split_crop_segments(self, segment1, segment2):
      for crop1, crop2 in zip(segment1['crops'], segment2['crops']):
          crop1['x'] = (crop1['x'] + crop2['x']) // 2
          crop1['y'] = (crop1['y'] + crop2['y']) // 2
      segment1['end_time'] = segment2['end_time']
  \<close>
  \<open>merge_crop_pairs\<close> is the \<^verbatim>\<open>for\<close> loop; sub-crops of \<open>segment1\<close> beyond the shorter
  list stay as they are.
\<close>

fun merge_crop_pairs :: "crop_dict list \<Rightarrow> crop_dict list \<Rightarrow> error + crop_dict list" where
  "merge_crop_pairs (crop1 # crops1) (crop2 # crops2) =
     ebind (dict_get crop1 ''x'') (\<lambda>x1.
     ebind (dict_get crop2 ''x'') (\<lambda>x2.
     ebind (dict_get crop1 ''y'') (\<lambda>y1.
     ebind (dict_get crop2 ''y'') (\<lambda>y2.
     ebind (merge_crop_pairs crops1 crops2) (\<lambda>rest.
       Inr (AList.update ''y'' ((y1 + y2) div 2)
              (AList.update ''x'' ((x1 + x2) div 2) crop1) # rest))))))"
| "merge_crop_pairs crops1 crops2 = Inr crops1"

definition merge_split_crop_segments ::
    "crop_segment \<Rightarrow> crop_segment \<Rightarrow> error + crop_segment" where
  "merge_split_crop_segments segment1 segment2 =
     ebind (key_or_raise ''crops'' (crops segment1)) (\<lambda>crops1.
     ebind (key_or_raise ''crops'' (crops segment2)) (\<lambda>crops2.
     ebind (merge_crop_pairs crops1 crops2) (\<lambda>merged.
       Inr (segment1\<lparr>crops := Some merged, end_time := end_time segment2\<rparr>))))"

text \<open>
  The body of the \<^verbatim>\<open>while\<close> loop of \<^verbatim>\<open>_merge_identical_segments\<close> decides between
  merging the segment at \<open>idx\<close> with its successor and moving on; \<open>merge_decision\<close>
  returns the merged segment in the first case and \<open>None\<close> in the second.
  \<^verbatim>\<open>
  idx = 0
  max_position_difference_ratio = 0.04
  video_width = video_file.get_width_pixels()
  video_height = video_file.get_height_pixels()
  while idx < len(segments) - 1:
      current_segment = segments[idx]
      next_segment = segments[idx + 1]
      if current_segment['crop_type'] != next_segment['crop_type']:
          idx += 1
          continue
      if current_segment['crop_type'] == 'single':
          if self._are_single_crops_similar(current_segment, next_segment, video_width,
                                            video_height, max_position_difference_ratio):
              self._merge_single_crop_segments(current_segment, next_segment)
              segments.pop(idx + 1)
          else:
              idx += 1
      elif current_segment['crop_type'] == 'split':
          if self._are_split_crops_similar(current_segment['crops'], next_segment['crops'],
                                           video_width, video_height,
                                           max_position_difference_ratio):
              self._merge_split_crop_segments(current_segment, next_segment)
              segments.pop(idx + 1)
          else:
              idx += 1
      else:
          idx += 1
  return segments
  \<close>
\<close>

definition max_position_difference_ratio :: rat where
  "max_position_difference_ratio = 4 / 100"

definition merge_decision ::
    "int \<Rightarrow> int \<Rightarrow> crop_segment \<Rightarrow> crop_segment \<Rightarrow> error + crop_segment option" where
  "merge_decision video_width video_height current_segment next_segment =
     (if crop_type current_segment \<noteq> crop_type next_segment then Inr None
      else if crop_type current_segment = ''single'' then
        ebind (are_single_crops_similar current_segment next_segment video_width
                 video_height max_position_difference_ratio) (\<lambda>similar.
          if similar
          then ebind (merge_single_crop_segments current_segment next_segment)
                 (\<lambda>merged. Inr (Some merged))
          else Inr None)
      else if crop_type current_segment = ''split'' then
        ebind (key_or_raise ''crops'' (crops current_segment)) (\<lambda>crops1.
        ebind (key_or_raise ''crops'' (crops next_segment)) (\<lambda>crops2.
        ebind (are_split_crops_similar crops1 crops2 video_width video_height
                 max_position_difference_ratio) (\<lambda>similar.
          if similar
          then ebind (merge_split_crop_segments current_segment next_segment)
                 (\<lambda>merged. Inr (Some merged))
          else Inr None)))
      else Inr None)"










lemma merge_decision_types_differ:
  "crop_type a \<noteq> crop_type b \<Longrightarrow> merge_decision vw vh a b = Inr None"
  by (simp add: merge_decision_def)

lemma merge_decision_single:
  assumes "crop_type a = ''single''" "crop_type b = ''single''"
    and "crop_x a = Some x1" "crop_y a = Some y1" "crop_x b = Some x2" "crop_y b = Some y2"
    and "vw \<noteq> 0" "vh \<noteq> 0"
  shows "merge_decision vw vh a b =
           Inr (if of_int \<bar>x1 - x2\<bar> / of_int vw < (4 / 100 :: rat)
                   \<and> of_int \<bar>y1 - y2\<bar> / of_int vh < (4 / 100 :: rat)
                then Some (a\<lparr>crop_x := Some ((x1 + x2) div 2),
                              crop_y := Some ((y1 + y2) div 2),
                              end_time := end_time b\<rparr>)
                else None)"
  using assms
  by (simp add: merge_decision_def are_single_crops_similar_def merge_single_crop_segments_def
      key_or_raise_def py_truediv_def ebind_def max_position_difference_ratio_def)

section \<open>Claims about the resize dimensions\<close>

text \<open>
  C1 (stated as in the specification): for a 1920 x 1080 source and target aspect ratio
  (9, 16) the calculation returns crop width 608 and crop height 1080. The code does not:
  \<open>1080 * 9 / 16 = 607.5\<close> and \<^verbatim>\<open>int\<close> truncates, so the width is 607.
\<close>

theorem C1_counterexample:
  "calc_resize_width_and_height_pixels 1920 1080 (9, 16) \<noteq> Inr (608, 1080)"
  by (simp add: calc_resize_width_and_height_pixels_def ebind_def py_truediv_def py_int_def
      floor_eq_iff)

text \<open>
  C1 (amended): for a 1920 x 1080 source and target aspect ratio (9, 16) the calculation
  returns crop width 607 (1080 * 9 / 16 = 607.5, truncated) and crop height 1080.
\<close>

theorem C1_resize_1920_1080:
  "calc_resize_width_and_height_pixels 1920 1080 (9, 16) = Inr (607, 1080)"
  by (simp add: calc_resize_width_and_height_pixels_def ebind_def py_truediv_def py_int_def
      floor_eq_iff)

section \<open>Claims about the ROI merge\<close>

text \<open>
  C6 (stated as in the specification): for every input list, every pair of distinct
  rectangles of the output of \<open>merge_rois\<close> (threshold 0.5) has IoU at most 0.5, and the
  output is no longer than the input. The first half fails: the scan over the remaining
  list never goes back, so a union made late in the scan can overlap a rectangle the scan
  has already passed. For the input 10 x 10, 20 x 10, 18 x 10 (all at the origin) the
  first and third are united to 18 x 10, which has IoU 0.9 with the 20 x 10 rectangle
  that stays in the output.
\<close>

theorem C6_counterexample:
  "\<not> iou_separated (1 / 2)
       (merge_rois [\<lparr>x = 0, y = 0, width = 10, height = 10\<rparr>,
                    \<lparr>x = 0, y = 0, width = 20, height = 10\<rparr>,
                    \<lparr>x = 0, y = 0, width = 18, height = 10\<rparr>])"
  by (simp add: merge_rois_def merge_rois_thr_def merge_rois_scan.simps iou_def union_rois_def
      pop_at_def Let_def)

text \<open>
  C6 (amended): for every input list the output of \<open>merge_rois\<close> is no longer than the
  input; when every pair of input rectangles already has IoU at most 0.5 the merge
  returns the input unchanged (so the output has the property too); and for an input of
  at most two rectangles every pair of output rectangles has IoU at most 0.5.
\<close>

theorem C6_merge_rois_count_and_separation:
  "length (merge_rois rois) \<le> length rois
   \<and> (iou_separated (1 / 2) rois \<longrightarrow> merge_rois rois = rois)
   \<and> (length rois \<le> 2 \<longrightarrow> iou_separated (1 / 2) (merge_rois rois))"
proof (intro conjI impI)
  show "length (merge_rois rois) \<le> length rois"
    using merge_rois_loop_length [of "1 / 2" "[]" rois]
    by (simp add: merge_rois_def merge_rois_thr_def)
  show "merge_rois rois = rois" if "iou_separated (1 / 2) rois"
    using merge_rois_loop_separated [OF that, of "[]"]
    by (simp add: merge_rois_def merge_rois_thr_def)
  show "iou_separated (1 / 2) (merge_rois rois)" if "length rois \<le> 2"
    using merge_rois_loop_short_separated [OF that, of "1 / 2"]
    by (simp add: merge_rois_def merge_rois_thr_def)
qed

theorem C6_merge_rois_witness:
  "iou_separated (1 / 2) [\<lparr>x = 0, y = 0, width = 10, height = 10\<rparr>,
                          \<lparr>x = 0, y = 0, width = 20, height = 10\<rparr>]
   \<and> length [\<lparr>x = 0, y = 0, width = 10, height = 10\<rparr>,
              \<lparr>x = 0, y = 0, width = 20, height = 10\<rparr>] \<le> 2
   \<and> merge_rois [\<lparr>x = 0, y = 0, width = 10, height = 10\<rparr>,
                  \<lparr>x = 0, y = 0, width = 20, height = 10\<rparr>]
       = [\<lparr>x = 0, y = 0, width = 10, height = 10\<rparr>, \<lparr>x = 0, y = 0, width = 20, height = 10\<rparr>]
   \<and> iou_separated (1 / 2)
        (merge_rois [\<lparr>x = 0, y = 0, width = 10, height = 10\<rparr>,
                     \<lparr>x = 0, y = 0, width = 20, height = 10\<rparr>])"
proof -
  have sep: "iou_separated (1 / 2) [\<lparr>x = 0, y = 0, width = 10, height = 10\<rparr>,
                                    \<lparr>x = 0, y = 0, width = 20, height = 10\<rparr>]"
    by (simp add: iou_def Let_def)
  show ?thesis
    using sep C6_merge_rois_count_and_separation
      [of "[\<lparr>x = 0, y = 0, width = 10, height = 10\<rparr>, \<lparr>x = 0, y = 0, width = 20, height = 10\<rparr>]"]
    by simp
qed

text \<open>
  C7 (stated as in the specification): \<open>merge_rois (merge_rois x) = merge_rois x\<close> for
  every list \<open>x\<close>. It fails on the same input: the first merge leaves 18 x 10 and 20 x 10,
  which a second merge unites.
\<close>

theorem C7_counterexample:
  "merge_rois (merge_rois [\<lparr>x = 0, y = 0, width = 10, height = 10\<rparr>,
                           \<lparr>x = 0, y = 0, width = 20, height = 10\<rparr>,
                           \<lparr>x = 0, y = 0, width = 18, height = 10\<rparr>])
   \<noteq> merge_rois [\<lparr>x = 0, y = 0, width = 10, height = 10\<rparr>,
                  \<lparr>x = 0, y = 0, width = 20, height = 10\<rparr>,
                  \<lparr>x = 0, y = 0, width = 18, height = 10\<rparr>]"
  by (simp add: merge_rois_def merge_rois_thr_def merge_rois_scan.simps iou_def union_rois_def
      pop_at_def Let_def)

text \<open>
  C7 (amended): \<open>merge_rois (merge_rois x) = merge_rois x\<close> holds whenever every pair of
  rectangles of \<open>merge_rois x\<close> has IoU at most 0.5, and in particular for every \<open>x\<close> of at
  most two rectangles.
\<close>

theorem C7_merge_rois_idempotent_when_separated:
  "(iou_separated (1 / 2) (merge_rois rois) \<longrightarrow> merge_rois (merge_rois rois) = merge_rois rois)
   \<and> (length rois \<le> 2 \<longrightarrow> merge_rois (merge_rois rois) = merge_rois rois)"
proof -
  have id: "merge_rois xs = xs" if "iou_separated (1 / 2) xs" for xs
    using merge_rois_loop_separated [OF that, of "[]"]
    by (simp add: merge_rois_def merge_rois_thr_def)
  have "iou_separated (1 / 2) (merge_rois rois)" if "length rois \<le> 2"
    using merge_rois_loop_short_separated [OF that, of "1 / 2"]
    by (simp add: merge_rois_def merge_rois_thr_def)
  with id show ?thesis by blast
qed

theorem C7_merge_rois_idempotent_witness:
  "merge_rois [\<lparr>x = 0, y = 0, width = 10, height = 10\<rparr>, \<lparr>x = 0, y = 0, width = 18, height = 10\<rparr>]
     = [\<lparr>x = 0, y = 0, width = 18, height = 10\<rparr>]
   \<and> iou_separated (1 / 2)
        (merge_rois [\<lparr>x = 0, y = 0, width = 10, height = 10\<rparr>,
                     \<lparr>x = 0, y = 0, width = 18, height = 10\<rparr>])
   \<and> merge_rois (merge_rois [\<lparr>x = 0, y = 0, width = 10, height = 10\<rparr>,
                               \<lparr>x = 0, y = 0, width = 18, height = 10\<rparr>])
       = merge_rois [\<lparr>x = 0, y = 0, width = 10, height = 10\<rparr>,
                     \<lparr>x = 0, y = 0, width = 18, height = 10\<rparr>]"
proof -
  have m: "merge_rois [\<lparr>x = 0, y = 0, width = 10, height = 10\<rparr>,
                       \<lparr>x = 0, y = 0, width = 18, height = 10\<rparr>]
           = [\<lparr>x = 0, y = 0, width = 18, height = 10\<rparr>]"
    by (simp add: merge_rois_def merge_rois_thr_def merge_rois_scan.simps iou_def union_rois_def
        pop_at_def Let_def)
  have len: "length [\<lparr>x = 0, y = 0, width = 10, height = 10\<rparr>,
                     \<lparr>x = 0, y = 0, width = 18, height = 10\<rparr>] \<le> 2"
    by simp
  show ?thesis
    using m len C7_merge_rois_idempotent_when_separated
      [of "[\<lparr>x = 0, y = 0, width = 10, height = 10\<rparr>, \<lparr>x = 0, y = 0, width = 18, height = 10\<rparr>]"]
    by simp
qed

section \<open>Claims about the layout and the output records\<close>

text \<open>
  C2: every sub-crop of a split layout carries the six keys x, y, width, height,
  target_x, target_y, and with exactly two ROIs the two sub-crops have the full target
  width, half the target height, target_y 0 and height/2, and a target_x, so that building
  the output records succeeds. The code misses this for two ROIs: that branch writes the
  keys x, y, width, height and target_y only (the grid branch for three or more ROIs
  writes all six), and the final loop of \<open>resize\<close> reads \<open>crop["target_x"]\<close>. So for every
  pair of ROIs, every target size and every segment, the layout has no \<open>target_x\<close> and
  building the output records raises \<open>KeyError\<close>.
\<close>

theorem C2_two_rois_missing_target_x:
  "map (\<lambda>c. (map_of c ''width'', map_of c ''height'', map_of c ''target_y'',
              map_of c ''target_x''))
       (calc_split_screen_crops [roi1, roi2] resize_width resize_height)
     = [(Some resize_width, Some (resize_height div 2), Some 0, None),
        (Some resize_width, Some (resize_height div 2), Some (resize_height div 2), None)]
   \<and> crop_type (add_crop_coordinates video_file resize_width resize_height [roi1, roi2] segment)
       = ''split''
   \<and> segment_outputs
        (add_crop_coordinates video_file resize_width resize_height [roi1, roi2] segment)
       = Inl (KeyError ''target_x'')"
  by (simp add: segment_outputs_def add_crop_coordinates_def calc_split_screen_crops_def
      key_or_raise_def split_crop_segment_def dict_get_def ebind_def Let_def)

text \<open>
  C3 (stated as in the specification): a segment with \<open>found_face = true\<close> in whose sampled
  frames no face is detected makes the pipeline raise \<open>ResizerError\<close> instead of falling
  back to a centre crop. The code does the opposite: \<open>_calc_segment_rois\<close> returns the
  empty list and the branch commented "Fallback to center crop if no ROIs found" assigns
  the centred single crop. Here a 1920 x 1080 video at 25 frames per second, a 607 x 1080
  target and one segment from 0 to 9 with a face found at second 1, so that
  \<open>frames_left = int((9 - 8 / 8 - 1) * 25 + 1) = int(176.0) = 176\<close> (no float operation
  rounds) and 13 frames are sampled, all of them without a face.
\<close>

theorem C3_counterexample:
  "add_x_y_coords_to_each_segment_batch exact_frames_left
     [\<lparr>speakers = [0], start_time = 0, end_time = 9, first_face_sec = 1, found_face = True,
       is_analyzed = False, num_samples = 0\<rparr>]
     \<lparr>width_pixels = 1920, height_pixels = 1080, frame_rate = 25\<rparr> 607 1080 13
     (replicate 13 None)
   = Inr [\<lparr>speakers = [0], start_time = 0, end_time = 9, crop_type = ''single'',
           crop_x = Some 656, crop_y = Some 0, crops = None\<rparr>]"
  by (simp add: add_x_y_coords_to_each_segment_batch_def exact_frames_left_def ebind_def
      py_int_def Let_def calc_segment_rois_def merge_rois16_def add_crop_coordinates_def)

text \<open>
  C3 (amended): if a segment has \<open>found_face = true\<close> but no face is detected in any of
  its sampled frames, the pipeline raises nothing for it: whenever the sampling loop of
  the batch succeeds, the batch returns, and that segment gets crop type 'single' with
  the centred fallback crop \<open>x = (source width - crop width) // 2\<close>,
  \<open>y = (source height - crop height) // 2\<close>. The sampled frames of the segment are the
  \<open>num_samples\<close> entries of \<open>face_detections\<close> that follow those of the segments before
  it, with \<open>num_samples\<close> as the sampling loop has set it, whatever the float computation
  of \<open>frames_left\<close> gives.
\<close>

theorem C3_zero_faces_falls_back_to_center:
  assumes "set_num_samples frames_left_of (frame_rate video_file) samples_per_segment
             segments = Inr segments'"
    and "i < length segments'"
    and "found_face (segments' ! i)"
    and "no_faces (take (nat (num_samples (segments' ! i)))
           (drop (detections_offset (take i segments')) face_detections))"
  shows "\<exists>out. add_x_y_coords_to_each_segment_batch frames_left_of segments video_file
             resize_width resize_height samples_per_segment face_detections = Inr out
           \<and> length out = length segments'
           \<and> out ! i = center_fallback video_file resize_width resize_height (segments' ! i)"
proof -
  have "calc_rois_loop video_file resize_width resize_height face_detections 0 segments' ! i
        = add_crop_coordinates video_file resize_width resize_height [] (segments' ! i)"
    using calc_rois_loop_nth [OF assms(2,3),
        of video_file resize_width resize_height face_detections 0]
      calc_segment_rois_no_faces [OF assms(4)]
    by simp
  then show ?thesis
    using assms(1)
    by (simp add: add_x_y_coords_to_each_segment_batch_def ebind_def calc_rois_loop_length
        add_crop_coordinates_def center_fallback_def)
qed

text \<open>
  Two segments with a face found, at 25 frames per second and 13 samples per segment:
  \<open>frames_left\<close> is \<open>int((4 - 3.5 / 8 - 0.5) * 25 + 1) = int(77.5625) = 77\<close> for the first
  and \<open>int((9 - 4 / 8 - 5) * 25 + 1) = int(88.5) = 88\<close> for the second (no float operation
  rounds), so both get 13 samples. The detector finds a face in each of the first 13
  frames and none in the 13 frames of the second segment, which gets the centred crop.
\<close>

theorem C3_zero_faces_witness:
  "set_num_samples exact_frames_left 25 13
     [\<lparr>speakers = [0], start_time = 0, end_time = 4, first_face_sec = 1 / 2,
       found_face = True, is_analyzed = False, num_samples = 0\<rparr>,
      \<lparr>speakers = [1], start_time = 4, end_time = 9, first_face_sec = 5,
       found_face = True, is_analyzed = False, num_samples = 0\<rparr>]
   = Inr [\<lparr>speakers = [0], start_time = 0, end_time = 4, first_face_sec = 1 / 2,
           found_face = True, is_analyzed = False, num_samples = 13\<rparr>,
          \<lparr>speakers = [1], start_time = 4, end_time = 9, first_face_sec = 5,
           found_face = True, is_analyzed = False, num_samples = 13\<rparr>]
   \<and> take 13 (drop 13 (replicate 13 (Some [(100, 100, 200, 200)]) @ replicate 13 None))
       = replicate 13 (None :: face_detection)
   \<and> (\<exists>out. add_x_y_coords_to_each_segment_batch exact_frames_left
          [\<lparr>speakers = [0], start_time = 0, end_time = 4, first_face_sec = 1 / 2,
            found_face = True, is_analyzed = False, num_samples = 0\<rparr>,
           \<lparr>speakers = [1], start_time = 4, end_time = 9, first_face_sec = 5,
            found_face = True, is_analyzed = False, num_samples = 0\<rparr>]
          \<lparr>width_pixels = 1920, height_pixels = 1080, frame_rate = 25\<rparr> 607 1080 13
          (replicate 13 (Some [(100, 100, 200, 200)]) @ replicate 13 None) = Inr out
        \<and> length out = 2
        \<and> out ! 1 = \<lparr>speakers = [1], start_time = 4, end_time = 9, crop_type = ''single'',
                      crop_x = Some 656, crop_y = Some 0, crops = None\<rparr>)"
proof -
  let ?a = "\<lparr>speakers = [0], start_time = 0, end_time = 4, first_face_sec = 1 / 2,
       found_face = True, is_analyzed = False, num_samples = 0\<rparr> :: face_segment"
  let ?a' = "\<lparr>speakers = [0], start_time = 0, end_time = 4, first_face_sec = 1 / 2,
       found_face = True, is_analyzed = False, num_samples = 13\<rparr> :: face_segment"
  let ?b = "\<lparr>speakers = [1], start_time = 4, end_time = 9, first_face_sec = 5,
       found_face = True, is_analyzed = False, num_samples = 0\<rparr> :: face_segment"
  let ?b' = "\<lparr>speakers = [1], start_time = 4, end_time = 9, first_face_sec = 5,
       found_face = True, is_analyzed = False, num_samples = 13\<rparr> :: face_segment"
  let ?vf = "\<lparr>width_pixels = 1920, height_pixels = 1080, frame_rate = 25\<rparr>"
  let ?fds = "replicate 13 (Some [(100, 100, 200, 200)]) @ replicate 13 None
                :: face_detection list"
  have fl: "exact_frames_left 4 (1 / 2) 25 = 77" "exact_frames_left 9 5 25 = 88"
    by (simp_all add: exact_frames_left_def py_int_def floor_eq_iff)
  have h0: "set_num_samples exact_frames_left 25 13 [?a, ?b] = Inr [?a', ?b']"
    by (simp add: ebind_def fl)
  then have h1: "set_num_samples exact_frames_left (frame_rate ?vf) 13 [?a, ?b]
      = Inr [?a', ?b']"
    by simp
  have h2: "take 13 (drop 13 ?fds) = replicate 13 None"
    by simp
  then have h3: "no_faces (take (nat (num_samples ([?a', ?b'] ! 1)))
              (drop (detections_offset (take 1 [?a', ?b'])) ?fds))"
    by (simp add: no_faces_def)
  from C3_zero_faces_falls_back_to_center [OF h1 _ _ h3, of 607 1080]
  obtain out where o:
    "add_x_y_coords_to_each_segment_batch exact_frames_left [?a, ?b] ?vf 607 1080 13 ?fds
       = Inr out"
    "length out = length [?a', ?b']"
    "out ! 1 = center_fallback ?vf 607 1080 ([?a', ?b'] ! 1)"
    by auto
  from o(2) have l: "length out = 2"
    by simp
  from o(3) have f: "out ! 1 = \<lparr>speakers = [1], start_time = 4, end_time = 9,
      crop_type = ''single'', crop_x = Some 656, crop_y = Some 0, crops = None\<rparr>"
    by (simp add: center_fallback_def)
  from h0 h2 o(1) l f show ?thesis
    by blast
qed

text \<open>
  C10: the truth value of an output \<open>Segment\<close> is not its validity. A \<open>Segment\<close> whose
  speaker list is empty, whose start time is 0, whose x is 0 or whose y is 0 is false
  under \<open>bool()\<close>; and the pipeline produces such records: a single ROI whose centre is
  no further from the left edge than half the crop width is clamped by \<open>_calc_crop\<close> to
  \<open>x = 0\<close>, and the output record built from it is false.
\<close>

theorem C10_segment_truthiness_is_not_validity:
  "(seg_speakers s = [] \<or> seg_start_time s = 0 \<or> seg_x s = 0 \<or> seg_y s = 0
      \<longrightarrow> \<not> segment_bool s)
   \<and> (x roi + width roi div 2 \<le> resize_width div 2 \<longrightarrow>
        (\<exists>out. segment_outputs
                  (add_crop_coordinates video_file resize_width resize_height [roi] segment)
                = Inr [out]
              \<and> seg_x out = 0 \<and> \<not> segment_bool out))"
  by (auto simp: segment_bool_def segment_outputs_def add_crop_coordinates_def calc_crop_def
      key_or_raise_def ebind_def Let_def)

theorem C10_segment_truthiness_witness:
  "seg_start_time \<lparr>seg_speakers = [0], seg_start_time = 0, seg_end_time = 4, seg_x = 656,
       seg_y = 10, seg_width = None, seg_height = None, seg_target_x = None,
       seg_target_y = None\<rparr> = 0
   \<and> \<not> segment_bool \<lparr>seg_speakers = [0], seg_start_time = 0, seg_end_time = 4, seg_x = 656,
       seg_y = 10, seg_width = None, seg_height = None, seg_target_x = None,
       seg_target_y = None\<rparr>
   \<and> x \<lparr>x = 20, y = 700, width = 200, height = 200\<rparr>
       + width \<lparr>x = 20, y = 700, width = 200, height = 200\<rparr> div 2 \<le> 607 div 2
   \<and> (\<exists>out. segment_outputs
               (add_crop_coordinates \<lparr>width_pixels = 1920, height_pixels = 1080, frame_rate = 25\<rparr>
                  607 1080 [\<lparr>x = 20, y = 700, width = 200, height = 200\<rparr>]
                  \<lparr>speakers = [1], start_time = 4, end_time = 9, first_face_sec = 5,
                   found_face = True, is_analyzed = False, num_samples = 13\<rparr>)
             = Inr [out]
           \<and> seg_x out = 0 \<and> \<not> segment_bool out)"
  using C10_segment_truthiness_is_not_validity
    [of "\<lparr>seg_speakers = [0], seg_start_time = 0, seg_end_time = 4, seg_x = 656,
         seg_y = 10, seg_width = None, seg_height = None, seg_target_x = None,
         seg_target_y = None\<rparr>"
        "\<lparr>x = 20, y = 700, width = 200, height = 200\<rparr>" 607
        "\<lparr>width_pixels = 1920, height_pixels = 1080, frame_rate = 25\<rparr>" 1080
        "\<lparr>speakers = [1], start_time = 4, end_time = 9, first_face_sec = 5,
          found_face = True, is_analyzed = False, num_samples = 13\<rparr>"]
  by simp

section \<open>Claims about the batch count\<close>

text \<open>
  C4 (stated as in the specification): when the free memory queried by the batch-count
  calculation is zero, the calculation does not fail with a division by zero but falls
  back to one batch, so that the result is an integer \<open>\<ge> 1\<close> for every frame count and
  video size. The code has no such guard: it computes
  \<open>total_extract_bytes // free_cpu_memory\<close>, which raises. Here 10 frames of a
  1920 x 1080 video, with three bytes per pixel.
\<close>

theorem C4_counterexample:
  "calc_n_batches (\<lambda>h w c. h * w * c) True 0
     \<lparr>width_pixels = 1920, height_pixels = 1080, frame_rate = 25\<rparr> 10 960 8
   = Inl ZeroDivisionError"
  by (simp add: calc_n_batches_def ebind_def py_truediv_def py_floordiv_float_def
      py_floordiv_def Let_def)

text \<open>
  C4 (amended): when the free memory queried during the batch-count calculation is zero
  the calculation raises \<open>ZeroDivisionError\<close>, whatever the other arguments; when it is
  positive, the detection width is not zero, the frame count is not negative and no image
  size in bytes is negative, the calculation returns an integer batch count \<open>\<ge> 1\<close>.
\<close>

theorem C4_batch_count_needs_free_memory:
  "calc_n_batches calc_img_bytes cuda_is_available 0 video_file num_frames face_detect_width
      n_face_detect_batches = Inl ZeroDivisionError
   \<and> (0 < free_cpu_memory \<and> face_detect_width \<noteq> 0 \<and> 0 \<le> num_frames
        \<and> (\<forall>h w c. 0 \<le> calc_img_bytes h w c) \<longrightarrow>
      (\<exists>n. calc_n_batches calc_img_bytes cuda_is_available free_cpu_memory video_file
              num_frames face_detect_width n_face_detect_batches = Inr n
            \<and> 1 \<le> n))"
  using calc_n_batches_zero_free calc_n_batches_pos_free by blast

theorem C4_batch_count_witness:
  "(0::int) < 1000000000 \<and> (960::int) \<noteq> 0 \<and> (0::int) \<le> 1000
   \<and> (\<forall>h w c. (0::int) \<le> int (nat h * nat w * nat c))
   \<and> calc_n_batches (\<lambda>h w c. int (nat h * nat w * nat c)) False 1000000000
        \<lparr>width_pixels = 1920, height_pixels = 1080, frame_rate = 25\<rparr> 1000 960 8 = Inr 8"
proof -
  have h: "\<forall>h w c. (0::int) \<le> int (nat h * nat w * nat c)"
    by simp
  have v: "calc_n_batches (\<lambda>h w c. int (nat h * nat w * nat c)) False 1000000000
        \<lparr>width_pixels = 1920, height_pixels = 1080, frame_rate = 25\<rparr> 1000 960 8 = Inr 8"
    by (simp add: calc_n_batches_def calc_n_batches_tail_def ebind_def py_truediv_def
        py_floordiv_float_def py_floordiv_def py_int_def Let_def)
  have "\<exists>n. calc_n_batches (\<lambda>h w c. int (nat h * nat w * nat c)) False 1000000000
        \<lparr>width_pixels = 1920, height_pixels = 1080, frame_rate = 25\<rparr> 1000 960 8 = Inr n
        \<and> 1 \<le> n"
    using h C4_batch_count_needs_free_memory
      [of "\<lambda>h w c. int (nat h * nat w * nat c)" False
          "\<lparr>width_pixels = 1920, height_pixels = 1080, frame_rate = 25\<rparr>" 1000 960 8 1000000000]
    by simp
  with v h show ?thesis
    by simp
qed

section \<open>Claims about the timeline merge\<close>




section \<open>Claims about the segment coalescing\<close>




section \<open>Claims about the face search\<close>



end
